theory Spec2Isabelle
  imports Main
begin

section \<open>Errors\<close>

text \<open>
  The exception classes of \<^verbatim>\<open>src/errors.py\<close>, together with the two built-in exceptions the
  policies and the machine raise (\<^verbatim>\<open>ValueError\<close>, \<^verbatim>\<open>RuntimeError\<close>). A call that can raise
  returns the object after the call paired with its outcome, \<open>Inl\<close> the exception: a Python
  exception leaves the receiver as it was mutated up to the \<^verbatim>\<open>raise\<close>.
\<close>

datatype error =
    InvalidWaterTankConfigError
  | InvalidWaterOperationError
  | NotEnoughWaterError
  | InvalidBeanContainerConfigError
  | InvalidBeanOperationError
  | NotEnoughBeansError
  | ValueError
  | RuntimeError

section \<open>WaterTank (water\_tank.py)\<close>

datatype WaterTankRefillStatus = WT_NOW_FULL | WT_STILL_NOT_FULL

text \<open>The two private attributes \<^verbatim>\<open>_maximum_level\<close> and \<^verbatim>\<open>_current_level\<close>; Python's ints are
  unbounded, hence \<open>int\<close>.\<close>

record WaterTank =
  maximum_level :: int
  current_level :: int

definition WaterTank_init :: "int \<Rightarrow> int \<Rightarrow> error + WaterTank" where
  "WaterTank_init maximum initial =
     (if maximum \<le> 0 then Inl InvalidWaterTankConfigError
      else if initial < 0 then Inl InvalidWaterTankConfigError
      else if initial > maximum then Inl InvalidWaterTankConfigError
      else Inr \<lparr>maximum_level = maximum, current_level = initial\<rparr>)"

definition consume_water :: "WaterTank \<Rightarrow> int \<Rightarrow> WaterTank \<times> (error + unit)" where
  "consume_water self use_level =
     (if use_level \<le> 0 then (self, Inl InvalidWaterOperationError)
      else if current_level self - use_level \<ge> 0
        then (self\<lparr>current_level := current_level self - use_level\<rparr>, Inr ())
      else (self, Inl NotEnoughWaterError))"

definition WaterTank_refill ::
  "WaterTank \<Rightarrow> int \<Rightarrow> WaterTank \<times> (error + WaterTankRefillStatus)" where
  "WaterTank_refill self refill_level =
     (if refill_level \<le> 0 then (self, Inl InvalidWaterOperationError)
      else let new_level = current_level self + refill_level in
        if new_level \<ge> maximum_level self
          then (self\<lparr>current_level := maximum_level self\<rparr>, Inr WT_NOW_FULL)
        else (self\<lparr>current_level := current_level self + refill_level\<rparr>, Inr WT_STILL_NOT_FULL))"

definition WaterTank_missing_capacity :: "WaterTank \<Rightarrow> int" where
  "WaterTank_missing_capacity self = maximum_level self - current_level self"

definition WaterTank_is_empty :: "WaterTank \<Rightarrow> bool" where
  "WaterTank_is_empty self = (current_level self = 0)"

definition WaterTank_is_full :: "WaterTank \<Rightarrow> bool" where
  "WaterTank_is_full self = (current_level self = maximum_level self)"

section \<open>BeanContainer (bean\_container.py)\<close>

datatype BeanContainerRefillStatus = BC_NOW_FULL | BC_STILL_NOT_FULL

text \<open>The attributes \<^verbatim>\<open>_maximum_grams\<close> and \<^verbatim>\<open>_current_grams\<close>; the properties
  \<^verbatim>\<open>maximum_level\<close> and \<^verbatim>\<open>current_level\<close> of the class read them.\<close>

record BeanContainer =
  maximum_grams :: int
  current_grams :: int

definition BeanContainer_init :: "int \<Rightarrow> int \<Rightarrow> error + BeanContainer" where
  "BeanContainer_init maximum initial =
     (if maximum \<le> 0 then Inl InvalidBeanContainerConfigError
      else if initial < 0 then Inl InvalidBeanContainerConfigError
      else if initial > maximum then Inl InvalidBeanContainerConfigError
      else Inr \<lparr>maximum_grams = maximum, current_grams = initial\<rparr>)"

definition consume_beans :: "BeanContainer \<Rightarrow> int \<Rightarrow> BeanContainer \<times> (error + unit)" where
  "consume_beans self amount_grams =
     (if amount_grams \<le> 0 then (self, Inl InvalidBeanOperationError)
      else if current_grams self - amount_grams \<ge> 0
        then (self\<lparr>current_grams := current_grams self - amount_grams\<rparr>, Inr ())
      else (self, Inl NotEnoughBeansError))"

definition BeanContainer_refill ::
  "BeanContainer \<Rightarrow> int \<Rightarrow> BeanContainer \<times> (error + BeanContainerRefillStatus)" where
  "BeanContainer_refill self refill_grams =
     (if refill_grams \<le> 0 then (self, Inl InvalidBeanOperationError)
      else let new_level = current_grams self + refill_grams in
        if new_level \<ge> maximum_grams self
          then (self\<lparr>current_grams := maximum_grams self\<rparr>, Inr BC_NOW_FULL)
        else (self\<lparr>current_grams := new_level\<rparr>, Inr BC_STILL_NOT_FULL))"

definition BeanContainer_missing_capacity :: "BeanContainer \<Rightarrow> int" where
  "BeanContainer_missing_capacity self = maximum_grams self - current_grams self"

definition BeanContainer_is_empty :: "BeanContainer \<Rightarrow> bool" where
  "BeanContainer_is_empty self = (current_grams self = 0)"

definition BeanContainer_is_full :: "BeanContainer \<Rightarrow> bool" where
  "BeanContainer_is_full self = (current_grams self = maximum_grams self)"

section \<open>Sequences of container calls\<close>

text \<open>
  A caller of a container issues \<^verbatim>\<open>consume\<close> and \<^verbatim>\<open>refill\<close> calls one after another; a
  call that raises leaves the container in the state its body reached, and the next call
  goes on from there.
\<close>

datatype container_call = Consume int | Refill int

fun WaterTank_call :: "WaterTank \<Rightarrow> container_call \<Rightarrow> WaterTank" where
  "WaterTank_call t (Consume n) = fst (consume_water t n)"
| "WaterTank_call t (Refill n) = fst (WaterTank_refill t n)"

fun WaterTank_calls :: "WaterTank \<Rightarrow> container_call list \<Rightarrow> WaterTank" where
  "WaterTank_calls t [] = t"
| "WaterTank_calls t (c # cs) = WaterTank_calls (WaterTank_call t c) cs"

fun BeanContainer_call :: "BeanContainer \<Rightarrow> container_call \<Rightarrow> BeanContainer" where
  "BeanContainer_call b (Consume n) = fst (consume_beans b n)"
| "BeanContainer_call b (Refill n) = fst (BeanContainer_refill b n)"

fun BeanContainer_calls :: "BeanContainer \<Rightarrow> container_call list \<Rightarrow> BeanContainer" where
  "BeanContainer_calls b [] = b"
| "BeanContainer_calls b (c # cs) = BeanContainer_calls (BeanContainer_call b c) cs"

section \<open>CoffeeRecipe (coffee\_recipe.py)\<close>

datatype CoffeeRecipeGrindLevel = FINE | MEDIUM | COARSE

text \<open>
  The frozen dataclass with its four fields. Its \<^verbatim>\<open>__post_init__\<close> only rejects field values
  (an empty name, amounts outside 0..2000 ml and 0..500 g); the policies and the machine read
  \<^verbatim>\<open>water_ml\<close> and \<^verbatim>\<open>beans_g\<close> alone, and what is proved about them below holds for every
  record, so for every recipe the constructor lets through.
\<close>

record CoffeeRecipe =
  name :: string
  water_ml :: int
  beans_g :: int
  grind :: "CoffeeRecipeGrindLevel option"

definition requires_water :: "CoffeeRecipe \<Rightarrow> bool" where
  "requires_water self = (water_ml self > 0)"

definition requires_beans :: "CoffeeRecipe \<Rightarrow> bool" where
  "requires_beans self = (beans_g self > 0)"

section \<open>Brew policy (policies/brew\_policy.py)\<close>

datatype BrewDecision = OK | OUT_OF_WATER | OUT_OF_BEANS | RECIPE_FORBIDDEN | NEEDS_CLEANING | ERROR

text \<open>
  \<^verbatim>\<open>BrewPolicy\<close> is an abstract class with the single method \<^verbatim>\<open>can_brew\<close>. Its docstring binds
  every implementation to evaluate without mutating anything and to return a \<^verbatim>\<open>BrewDecision\<close>,
  so a brew policy object is its method: a function of the recipe, the available water, the
  available beans and the optional maintenance state.
\<close>

type_synonym BrewPolicy =
  "CoffeeRecipe \<Rightarrow> int \<Rightarrow> int \<Rightarrow> (string \<rightharpoonup> int) option \<Rightarrow> BrewDecision"

text \<open>The \<^verbatim>\<open>name\<close> attribute of an enum member.\<close>

fun BrewDecision_name :: "BrewDecision \<Rightarrow> string" where
  "BrewDecision_name OK = ''OK''"
| "BrewDecision_name OUT_OF_WATER = ''OUT_OF_WATER''"
| "BrewDecision_name OUT_OF_BEANS = ''OUT_OF_BEANS''"
| "BrewDecision_name RECIPE_FORBIDDEN = ''RECIPE_FORBIDDEN''"
| "BrewDecision_name NEEDS_CLEANING = ''NEEDS_CLEANING''"
| "BrewDecision_name ERROR = ''ERROR''"

record DefaultBrewPolicy =
  clean_threshold :: int
  allow_recipe_with_no_requirements :: bool

definition DefaultBrewPolicy_init :: "int \<Rightarrow> bool \<Rightarrow> error + DefaultBrewPolicy" where
  "DefaultBrewPolicy_init threshold allow =
     (if threshold < 0 then Inl ValueError
      else Inr \<lparr>clean_threshold = threshold, allow_recipe_with_no_requirements = allow\<rparr>)"

text \<open>
  \<^verbatim>\<open>maintenance_state\<close> is an optional dict, here a map from keys to the integer counters
  the machine stores in it. \<^verbatim>\<open>maintenance_state or {}\<close> replaces \<^verbatim>\<open>None\<close> (and the empty dict,
  which is falsy) by the empty dict; \<^verbatim>\<open>.get("dirty_count", 0)\<close> reads the key with 0
  as the default, and \<^verbatim>\<open>int\<close> of an integer is that integer.
\<close>

definition can_brew ::
  "DefaultBrewPolicy \<Rightarrow> CoffeeRecipe \<Rightarrow> int \<Rightarrow> int \<Rightarrow> (string \<rightharpoonup> int) option \<Rightarrow> BrewDecision" where
  "can_brew self recipe water_available_ml beans_available_g maintenance_state =
     (let ms = (case maintenance_state of None \<Rightarrow> Map.empty | Some d \<Rightarrow> d);
          dirty = (case ms ''dirty_count'' of None \<Rightarrow> 0 | Some v \<Rightarrow> v);
          rw = requires_water recipe;
          rb = requires_beans recipe
      in if \<not> rw \<and> \<not> rb
           then (if allow_recipe_with_no_requirements self then OK else RECIPE_FORBIDDEN)
         else if rw \<and> water_available_ml < water_ml recipe then OUT_OF_WATER
         else if rb \<and> beans_available_g < beans_g recipe then OUT_OF_BEANS
         else if dirty \<ge> clean_threshold self then NEEDS_CLEANING
         else OK)"

section \<open>Cleaning policy (policies/cleaning\_policy.py)\<close>

datatype CleaningAction = NO_ACTION | SCHEDULE | IMMEDIATE

text \<open>
  A \<^verbatim>\<open>datetime\<close> and a \<^verbatim>\<open>timedelta\<close> both count whole microseconds, so they are integers:
  a point in time is its distance from a fixed origin. The reading of the clock
  (\<^verbatim>\<open>datetime.utcnow()\<close>) is the parameter \<open>now\<close> of every function that reads it.
\<close>

type_synonym datetime = int
type_synonym timedelta = int

text \<open>
  \<^verbatim>\<open>CleaningPolicy\<close> is an abstract class with the single method \<^verbatim>\<open>evaluate\<close>, which its
  docstring requires to be a pure function returning a \<^verbatim>\<open>CleaningAction\<close>. A cleaning policy
  object is that method: a function of the clock reading it may consult, the dirty count and
  the optional time of the last clean.
\<close>

type_synonym CleaningPolicy = "datetime \<Rightarrow> int \<Rightarrow> datetime option \<Rightarrow> CleaningAction"

record DefaultCleaningPolicy =
  schedule_threshold :: int
  immediate_threshold :: int
  max_time_between_cleans :: "timedelta option"

definition DefaultCleaningPolicy_init ::
  "int \<Rightarrow> int \<Rightarrow> timedelta option \<Rightarrow> error + DefaultCleaningPolicy" where
  "DefaultCleaningPolicy_init schedule immediate max_time =
     (if \<not> (0 \<le> schedule \<and> schedule \<le> immediate) then Inl ValueError
      else Inr \<lparr>schedule_threshold = schedule, immediate_threshold = immediate,
                max_time_between_cleans = max_time\<rparr>)"

text \<open>
  \<^verbatim>\<open>evaluate\<close> first normalises its count with \<^verbatim>\<open>int(dirty_count or 0)\<close>, which is the count
  itself for an integer. The time test is the nested \<^verbatim>\<open>if\<close> at the head of the method: both
  the maximum time and the time of the last clean are present, and the time passed since the
  last clean is at least the maximum time.
\<close>

definition time_rule_applies ::
  "DefaultCleaningPolicy \<Rightarrow> datetime \<Rightarrow> datetime option \<Rightarrow> bool" where
  "time_rule_applies self now last_cleaned_ts =
     (case max_time_between_cleans self of
        None \<Rightarrow> False
      | Some max_time \<Rightarrow>
          (case last_cleaned_ts of None \<Rightarrow> False | Some ts \<Rightarrow> now - ts \<ge> max_time))"

definition evaluate ::
  "DefaultCleaningPolicy \<Rightarrow> datetime \<Rightarrow> int \<Rightarrow> datetime option \<Rightarrow> CleaningAction" where
  "evaluate self now dirty last_cleaned_ts =
     (if time_rule_applies self now last_cleaned_ts then IMMEDIATE
      else if dirty < schedule_threshold self then NO_ACTION
      else if dirty < immediate_threshold self then SCHEDULE
      else IMMEDIATE)"

section \<open>Refill policies (policies/refill\_policy.py)\<close>

datatype RefillResult = NOW_FULL | STILL_NOT_FULL | OVERFLOW_ERROR

text \<open>\<^verbatim>\<open>RefillPolicy\<close> is an abstract class with the single method \<^verbatim>\<open>on_refill\<close>; a refill
  policy object is that method.\<close>

type_synonym RefillPolicy = "int \<Rightarrow> int \<Rightarrow> int \<Rightarrow> error + int \<times> RefillResult"

definition CapRefillPolicy_on_refill :: RefillPolicy where
  "CapRefillPolicy_on_refill current refill_amount maximum =
     (if refill_amount \<le> 0 then Inl ValueError
      else let new_level = current + refill_amount in
        if new_level \<ge> maximum then Inr (maximum, NOW_FULL)
        else Inr (new_level, STILL_NOT_FULL))"

definition StrictRefillPolicy_on_refill :: RefillPolicy where
  "StrictRefillPolicy_on_refill current refill_amount maximum =
     (if refill_amount \<le> 0 then Inl ValueError
      else let new_level = current + refill_amount in
        if new_level > maximum then Inr (current, OVERFLOW_ERROR)
        else if new_level = maximum then Inr (maximum, NOW_FULL)
        else Inr (new_level, STILL_NOT_FULL))"

section \<open>SimpleCoffeeMachine (coffee\_machine.py)\<close>

text \<open>
  The machine owns its two containers and stores whatever policy objects its constructor is
  given; \<^verbatim>\<open>brew\<close> calls the stored brew policy and the stored cleaning policy, and nothing
  calls the stored refill policy. A \<^verbatim>\<open>DefaultBrewPolicy\<close> \<open>p\<close> is injected as \<open>can_brew p\<close>, a
  \<^verbatim>\<open>DefaultCleaningPolicy\<close> \<open>p\<close> as \<open>evaluate p\<close>, the two refill policies as
  \<open>CapRefillPolicy_on_refill\<close> and \<open>StrictRefillPolicy_on_refill\<close>.
\<close>

record SimpleCoffeeMachine =
  water_tank :: WaterTank
  bean_container :: BeanContainer
  brew_policy :: BrewPolicy
  cleaning_policy :: CleaningPolicy
  refill_policy :: RefillPolicy
  state :: string
  active_recipe :: "CoffeeRecipe option"
  dirty_count :: int
  last_cleaned_ts :: "datetime option"
  cleaning_scheduled :: bool

definition SimpleCoffeeMachine_init ::
  "WaterTank \<Rightarrow> BeanContainer \<Rightarrow> BrewPolicy \<Rightarrow> CleaningPolicy \<Rightarrow> RefillPolicy
     \<Rightarrow> SimpleCoffeeMachine" where
  "SimpleCoffeeMachine_init wt bc bp cp rp =
     \<lparr>water_tank = wt, bean_container = bc, brew_policy = bp, cleaning_policy = cp,
      refill_policy = rp, state = ''IDLE'', active_recipe = None, dirty_count = 0,
      last_cleaned_ts = None, cleaning_scheduled = False\<rparr>"

definition select_recipe :: "SimpleCoffeeMachine \<Rightarrow> CoffeeRecipe \<Rightarrow> SimpleCoffeeMachine" where
  "select_recipe self recipe = self\<lparr>active_recipe := Some recipe\<rparr>"

text \<open>
  \<^verbatim>\<open>brew\<close> reads the clock only inside the cleaning policy; \<open>now\<close> is that reading. The
  two consumptions can raise, and the exception leaves \<^verbatim>\<open>brew\<close> with the machine as it is
  at that point.
\<close>

definition brew ::
  "datetime \<Rightarrow> SimpleCoffeeMachine \<Rightarrow> SimpleCoffeeMachine \<times> (error + BrewDecision)" where
  "brew now self =
     (case active_recipe self of
        None \<Rightarrow> (self, Inl RuntimeError)
      | Some recipe \<Rightarrow>
          (let decision = brew_policy self recipe
                 (current_level (water_tank self)) (current_grams (bean_container self))
                 (Some (Map.empty(''dirty_count'' \<mapsto> dirty_count self)))
           in if decision \<noteq> OK then (self\<lparr>state := BrewDecision_name decision\<rparr>, Inr decision)
              else
                (let (wt, r1) = (if requires_water recipe
                                   then consume_water (water_tank self) (water_ml recipe)
                                 else (water_tank self, Inr ()));
                     m1 = self\<lparr>water_tank := wt\<rparr>
                 in (case r1 of
                       Inl e \<Rightarrow> (m1, Inl e)
                     | Inr u \<Rightarrow>
                         (let (bc, r2) = (if requires_beans recipe
                                            then consume_beans (bean_container m1) (beans_g recipe)
                                          else (bean_container m1, Inr ()));
                              m2 = m1\<lparr>bean_container := bc\<rparr>
                          in (case r2 of
                                Inl e \<Rightarrow> (m2, Inl e)
                              | Inr u \<Rightarrow>
                                  (let m3 = m2\<lparr>dirty_count := dirty_count m2 + 1\<rparr>;
                                       cleaning_action = cleaning_policy m3 now
                                         (dirty_count m3) (last_cleaned_ts m3)
                                   in (if cleaning_action = IMMEDIATE
                                         then m3\<lparr>state := ''NEEDS_CLEANING''\<rparr>
                                       else if cleaning_action = SCHEDULE
                                         then m3\<lparr>cleaning_scheduled := True, state := ''IDLE''\<rparr>
                                       else m3\<lparr>state := ''IDLE''\<rparr>,
                                       Inr OK))))))))"

definition clean :: "datetime \<Rightarrow> SimpleCoffeeMachine \<Rightarrow> SimpleCoffeeMachine" where
  "clean now self =
     self\<lparr>dirty_count := 0, last_cleaned_ts := Some now, cleaning_scheduled := False,
          state := ''IDLE''\<rparr>"

definition schedule_cleaning :: "SimpleCoffeeMachine \<Rightarrow> SimpleCoffeeMachine" where
  "schedule_cleaning self = self\<lparr>cleaning_scheduled := True\<rparr>"

definition refill_water ::
  "SimpleCoffeeMachine \<Rightarrow> int \<Rightarrow> SimpleCoffeeMachine \<times> (error + WaterTankRefillStatus)" where
  "refill_water self amount =
     (let (wt, r) = WaterTank_refill (water_tank self) amount in (self\<lparr>water_tank := wt\<rparr>, r))"

definition refill_beans ::
  "SimpleCoffeeMachine \<Rightarrow> int \<Rightarrow> SimpleCoffeeMachine \<times> (error + BeanContainerRefillStatus)" where
  "refill_beans self amount =
     (let (bc, r) = BeanContainer_refill (bean_container self) amount
      in (self\<lparr>bean_container := bc\<rparr>, r))"

section \<open>The containers' class invariant\<close>

text \<open>The invariant both class docstrings state: \<^verbatim>\<open>0 <= current_level <= maximum_level\<close>.\<close>

definition WaterTank_inv :: "WaterTank \<Rightarrow> bool" where
  "WaterTank_inv t \<longleftrightarrow> 0 \<le> current_level t \<and> current_level t \<le> maximum_level t"

definition BeanContainer_inv :: "BeanContainer \<Rightarrow> bool" where
  "BeanContainer_inv b \<longleftrightarrow> 0 \<le> current_grams b \<and> current_grams b \<le> maximum_grams b"

section \<open>Containers: consume and refill\<close>

lemma consume_water_cases:
  "consume_water t a =
     (if a \<le> 0 then (t, Inl InvalidWaterOperationError)
      else if current_level t < a then (t, Inl NotEnoughWaterError)
      else (t\<lparr>current_level := current_level t - a\<rparr>, Inr ()))"
  by (simp add: consume_water_def)

lemma consume_beans_cases:
  "consume_beans b a =
     (if a \<le> 0 then (b, Inl InvalidBeanOperationError)
      else if current_grams b < a then (b, Inl NotEnoughBeansError)
      else (b\<lparr>current_grams := current_grams b - a\<rparr>, Inr ()))"
  by (simp add: consume_beans_def)

text \<open>
  Claim C3. For every container and every integer amount, \<^verbatim>\<open>consume\<close> raises the
  invalid-operation error exactly when the amount is not positive, raises the
  not-enough error exactly when the amount is positive and exceeds the current level,
  leaves the container as it was whenever it raises, and otherwise lowers the current
  level by exactly the amount (the maximum stays). This holds for \<^verbatim>\<open>WaterTank.consume_water\<close> and for
  \<^verbatim>\<open>BeanContainer.consume_beans\<close>.
\<close>

theorem consume_all_or_nothing:
  "(snd (consume_water t a) = Inl InvalidWaterOperationError \<longleftrightarrow> a \<le> 0) \<and>
   (snd (consume_water t a) = Inl NotEnoughWaterError \<longleftrightarrow> a > 0 \<and> current_level t - a < 0) \<and>
   (isl (snd (consume_water t a)) \<longleftrightarrow> a \<le> 0 \<or> current_level t - a < 0) \<and>
   (isl (snd (consume_water t a)) \<longrightarrow> fst (consume_water t a) = t) \<and>
   (\<not> isl (snd (consume_water t a)) \<longrightarrow>
      current_level (fst (consume_water t a)) = current_level t - a \<and>
      maximum_level (fst (consume_water t a)) = maximum_level t) \<and>
   (snd (consume_beans b a) = Inl InvalidBeanOperationError \<longleftrightarrow> a \<le> 0) \<and>
   (snd (consume_beans b a) = Inl NotEnoughBeansError \<longleftrightarrow> a > 0 \<and> current_grams b - a < 0) \<and>
   (isl (snd (consume_beans b a)) \<longleftrightarrow> a \<le> 0 \<or> current_grams b - a < 0) \<and>
   (isl (snd (consume_beans b a)) \<longrightarrow> fst (consume_beans b a) = b) \<and>
   (\<not> isl (snd (consume_beans b a)) \<longrightarrow>
      current_grams (fst (consume_beans b a)) = current_grams b - a \<and>
      maximum_grams (fst (consume_beans b a)) = maximum_grams b)"
  by (simp add: consume_water_cases consume_beans_cases)

theorem consume_all_or_nothing_witness:
  "consume_water \<lparr>maximum_level = 500, current_level = 150\<rparr> 200
     = (\<lparr>maximum_level = 500, current_level = 150\<rparr>, Inl NotEnoughWaterError) \<and>
   consume_water \<lparr>maximum_level = 500, current_level = 150\<rparr> 0
     = (\<lparr>maximum_level = 500, current_level = 150\<rparr>, Inl InvalidWaterOperationError) \<and>
   current_level (fst (consume_water \<lparr>maximum_level = 500, current_level = 150\<rparr> 150)) = 0 \<and>
   consume_beans \<lparr>maximum_grams = 500, current_grams = 50\<rparr> (- 3)
     = (\<lparr>maximum_grams = 500, current_grams = 50\<rparr>, Inl InvalidBeanOperationError) \<and>
   consume_beans \<lparr>maximum_grams = 500, current_grams = 50\<rparr> 51
     = (\<lparr>maximum_grams = 500, current_grams = 50\<rparr>, Inl NotEnoughBeansError) \<and>
   current_grams (fst (consume_beans \<lparr>maximum_grams = 500, current_grams = 50\<rparr> 8)) = 42"
  using consume_all_or_nothing [of "\<lparr>maximum_level = 500, current_level = 150\<rparr>" 200
          "\<lparr>maximum_grams = 500, current_grams = 50\<rparr>"]
        consume_all_or_nothing [of "\<lparr>maximum_level = 500, current_level = 150\<rparr>" 0
          "\<lparr>maximum_grams = 500, current_grams = 50\<rparr>"]
        consume_all_or_nothing [of "\<lparr>maximum_level = 500, current_level = 150\<rparr>" 150
          "\<lparr>maximum_grams = 500, current_grams = 50\<rparr>"]
        consume_all_or_nothing [of "\<lparr>maximum_level = 500, current_level = 150\<rparr>" "- 3"
          "\<lparr>maximum_grams = 500, current_grams = 50\<rparr>"]
        consume_all_or_nothing [of "\<lparr>maximum_level = 500, current_level = 150\<rparr>" 51
          "\<lparr>maximum_grams = 500, current_grams = 50\<rparr>"]
        consume_all_or_nothing [of "\<lparr>maximum_level = 500, current_level = 150\<rparr>" 8
          "\<lparr>maximum_grams = 500, current_grams = 50\<rparr>"]
  by (simp add: consume_water_cases consume_beans_cases)

text \<open>
  Claim C4. For every container and every amount greater than zero, \<^verbatim>\<open>refill\<close> does not
  raise: when the current level plus the amount reaches or passes the maximum it sets the
  level to the maximum and returns NOW\_FULL, otherwise it adds the amount and returns
  STILL\_NOT\_FULL. A full container refilled with a positive amount stays as it is and
  returns NOW\_FULL, and a container built with maximum 500 and initial level 450,
  refilled with 200, ends at level 500 with NOW\_FULL. This holds for \<^verbatim>\<open>WaterTank.refill\<close>
  and for \<^verbatim>\<open>BeanContainer.refill\<close>.
\<close>

theorem refill_caps_at_maximum:
  assumes "0 < a"
  shows
  "\<not> isl (snd (WaterTank_refill t a)) \<and>
   (current_level t + a \<ge> maximum_level t \<longrightarrow>
      WaterTank_refill t a = (t\<lparr>current_level := maximum_level t\<rparr>, Inr WT_NOW_FULL)) \<and>
   (current_level t + a < maximum_level t \<longrightarrow>
      WaterTank_refill t a = (t\<lparr>current_level := current_level t + a\<rparr>, Inr WT_STILL_NOT_FULL)) \<and>
   (current_level t = maximum_level t \<longrightarrow> WaterTank_refill t a = (t, Inr WT_NOW_FULL)) \<and>
   \<not> isl (snd (BeanContainer_refill b a)) \<and>
   (current_grams b + a \<ge> maximum_grams b \<longrightarrow>
      BeanContainer_refill b a = (b\<lparr>current_grams := maximum_grams b\<rparr>, Inr BC_NOW_FULL)) \<and>
   (current_grams b + a < maximum_grams b \<longrightarrow>
      BeanContainer_refill b a = (b\<lparr>current_grams := current_grams b + a\<rparr>, Inr BC_STILL_NOT_FULL)) \<and>
   (current_grams b = maximum_grams b \<longrightarrow> BeanContainer_refill b a = (b, Inr BC_NOW_FULL)) \<and>
   (case WaterTank_init 500 450 of
      Inl e \<Rightarrow> False
    | Inr t0 \<Rightarrow> snd (WaterTank_refill t0 200) = Inr WT_NOW_FULL \<and>
        current_level (fst (WaterTank_refill t0 200)) = 500) \<and>
   (case BeanContainer_init 500 450 of
      Inl e \<Rightarrow> False
    | Inr b0 \<Rightarrow> snd (BeanContainer_refill b0 200) = Inr BC_NOW_FULL \<and>
        current_grams (fst (BeanContainer_refill b0 200)) = 500)"
  using assms
  by (simp add: WaterTank_refill_def BeanContainer_refill_def WaterTank_init_def
      BeanContainer_init_def Let_def)

theorem refill_caps_at_maximum_witness:
  "(0::int) < 200 \<and>
   WaterTank_refill \<lparr>maximum_level = 500, current_level = 450\<rparr> 200
     = (\<lparr>maximum_level = 500, current_level = 500\<rparr>, Inr WT_NOW_FULL) \<and>
   BeanContainer_refill \<lparr>maximum_grams = 500, current_grams = 50\<rparr> 200
     = (\<lparr>maximum_grams = 500, current_grams = 250\<rparr>, Inr BC_STILL_NOT_FULL)"
  using refill_caps_at_maximum [of 200 "\<lparr>maximum_level = 500, current_level = 450\<rparr>"
          "\<lparr>maximum_grams = 500, current_grams = 50\<rparr>"]
  by simp

section \<open>Containers: the level invariant\<close>

lemma WaterTank_call_inv:
  assumes "WaterTank_inv t"
  shows "WaterTank_inv (WaterTank_call t c) \<and>
         maximum_level (WaterTank_call t c) = maximum_level t"
proof (cases c)
  case (Consume n)
  with assms show ?thesis
    by (simp add: WaterTank_inv_def consume_water_cases)
next
  case (Refill n)
  with assms show ?thesis
    by (simp add: WaterTank_inv_def WaterTank_refill_def Let_def)
qed

lemma WaterTank_calls_inv:
  "WaterTank_inv t \<Longrightarrow>
   WaterTank_inv (WaterTank_calls t cs) \<and> maximum_level (WaterTank_calls t cs) = maximum_level t"
proof (induction cs arbitrary: t)
  case Nil
  then show ?case by simp
next
  case (Cons c cs)
  from Cons.prems have step: "WaterTank_inv (WaterTank_call t c)"
    and mx: "maximum_level (WaterTank_call t c) = maximum_level t"
    using WaterTank_call_inv by blast+
  from Cons.IH [OF step] mx show ?case by simp
qed

lemma BeanContainer_call_inv:
  assumes "BeanContainer_inv b"
  shows "BeanContainer_inv (BeanContainer_call b c) \<and>
         maximum_grams (BeanContainer_call b c) = maximum_grams b"
proof (cases c)
  case (Consume n)
  with assms show ?thesis
    by (simp add: BeanContainer_inv_def consume_beans_cases)
next
  case (Refill n)
  with assms show ?thesis
    by (simp add: BeanContainer_inv_def BeanContainer_refill_def Let_def)
qed

lemma BeanContainer_calls_inv:
  "BeanContainer_inv b \<Longrightarrow>
   BeanContainer_inv (BeanContainer_calls b cs) \<and>
   maximum_grams (BeanContainer_calls b cs) = maximum_grams b"
proof (induction cs arbitrary: b)
  case Nil
  then show ?case by simp
next
  case (Cons c cs)
  from Cons.prems have step: "BeanContainer_inv (BeanContainer_call b c)"
    and mx: "maximum_grams (BeanContainer_call b c) = maximum_grams b"
    using BeanContainer_call_inv by blast+
  from Cons.IH [OF step] mx show ?case by simp
qed

text \<open>
  Claim C2. A \<^verbatim>\<open>WaterTank\<close> and a \<^verbatim>\<open>BeanContainer\<close> built with a maximum greater than zero
  and an initial level between zero and the maximum are built without error, and after
  any finite sequence of consume and refill calls with any integer amounts, the failing
  calls included, the current level lies between zero and the maximum level, and the
  maximum level is the one given at construction.
\<close>

theorem container_level_invariant:
  assumes "0 < mx" and "0 \<le> init" and "init \<le> mx"
  shows
  "(case WaterTank_init mx init of
      Inl e \<Rightarrow> False
    | Inr t \<Rightarrow> 0 \<le> current_level (WaterTank_calls t cs) \<and>
        current_level (WaterTank_calls t cs) \<le> maximum_level (WaterTank_calls t cs) \<and>
        maximum_level (WaterTank_calls t cs) = mx) \<and>
   (case BeanContainer_init mx init of
      Inl e \<Rightarrow> False
    | Inr b \<Rightarrow> 0 \<le> current_grams (BeanContainer_calls b cs) \<and>
        current_grams (BeanContainer_calls b cs) \<le> maximum_grams (BeanContainer_calls b cs) \<and>
        maximum_grams (BeanContainer_calls b cs) = mx)"
proof -
  let ?t = "\<lparr>maximum_level = mx, current_level = init\<rparr>"
  let ?b = "\<lparr>maximum_grams = mx, current_grams = init\<rparr>"
  from assms have wt: "WaterTank_init mx init = Inr ?t"
    by (simp add: WaterTank_init_def)
  from assms have bc: "BeanContainer_init mx init = Inr ?b"
    by (simp add: BeanContainer_init_def)
  from assms have "WaterTank_inv ?t" and "BeanContainer_inv ?b"
    by (simp_all add: WaterTank_inv_def BeanContainer_inv_def)
  then have "WaterTank_inv (WaterTank_calls ?t cs) \<and> maximum_level (WaterTank_calls ?t cs) = mx"
    and "BeanContainer_inv (BeanContainer_calls ?b cs) \<and>
         maximum_grams (BeanContainer_calls ?b cs) = mx"
    using WaterTank_calls_inv [of ?t cs] BeanContainer_calls_inv [of ?b cs] by simp_all
  with wt bc show ?thesis
    by (simp add: WaterTank_inv_def BeanContainer_inv_def)
qed

theorem container_level_invariant_witness:
  "(0::int) < 500 \<and> (0::int) \<le> 150 \<and> (150::int) \<le> 500 \<and>
   WaterTank_init 500 150 = Inr \<lparr>maximum_level = 500, current_level = 150\<rparr> \<and>
   BeanContainer_init 500 150 = Inr \<lparr>maximum_grams = 500, current_grams = 150\<rparr> \<and>
   WaterTank_calls \<lparr>maximum_level = 500, current_level = 150\<rparr>
       [Consume 100, Consume 100, Refill 1000, Consume 0, Refill (- 5), Consume 120]
     = \<lparr>maximum_level = 500, current_level = 380\<rparr> \<and>
   BeanContainer_calls \<lparr>maximum_grams = 500, current_grams = 150\<rparr>
       [Consume 100, Consume 100, Refill 1000, Consume 0, Refill (- 5), Consume 120]
     = \<lparr>maximum_grams = 500, current_grams = 380\<rparr>"
  using container_level_invariant [of 500 150
          "[Consume 100, Consume 100, Refill 1000, Consume 0, Refill (- 5), Consume 120]"]
  by (simp add: WaterTank_init_def BeanContainer_init_def consume_water_cases
      consume_beans_cases WaterTank_refill_def BeanContainer_refill_def Let_def)

section \<open>Brew policy\<close>

lemma can_brew_OK_sufficient:
  assumes "can_brew p r w b ms = OK"
  shows "(requires_water r \<longrightarrow> 0 < water_ml r \<and> water_ml r \<le> w) \<and>
         (requires_beans r \<longrightarrow> 0 < beans_g r \<and> beans_g r \<le> b)"
  using assms
  by (auto simp: can_brew_def requires_water_def requires_beans_def Let_def split: if_splits)

text \<open>
  Claim C5. \<^verbatim>\<open>DefaultBrewPolicy.can_brew\<close> checks water before beans: for every recipe that
  requires both water and beans, whenever the available water is less than the recipe's
  water, the decision is OUT\_OF\_WATER and not OUT\_OF\_BEANS, whatever the beans, the
  maintenance state and the policy's configuration are. For the recipe espresso with 30 ml
  and 8 g, a policy built with clean threshold 5, water 20, beans 100 and a dirty count of 0,
  the decision is OUT\_OF\_WATER.
\<close>

theorem can_brew_water_before_beans:
  assumes "requires_water r" and "requires_beans r" and "w < water_ml r"
  shows
  "can_brew p r w b ms = OUT_OF_WATER \<and> can_brew p r w b ms \<noteq> OUT_OF_BEANS \<and>
   (case DefaultBrewPolicy_init 5 False of
      Inl e \<Rightarrow> False
    | Inr p5 \<Rightarrow>
        can_brew p5 \<lparr>name = ''espresso'', water_ml = 30, beans_g = 8, grind = None\<rparr> 20 100
          (Some (Map.empty(''dirty_count'' \<mapsto> 0))) = OUT_OF_WATER)"
  using assms
  by (simp add: can_brew_def DefaultBrewPolicy_init_def requires_water_def requires_beans_def)

theorem can_brew_water_before_beans_witness:
  "requires_water \<lparr>name = ''espresso'', water_ml = 30, beans_g = 8, grind = None\<rparr> \<and>
   requires_beans \<lparr>name = ''espresso'', water_ml = 30, beans_g = 8, grind = None\<rparr> \<and>
   20 < water_ml \<lparr>name = ''espresso'', water_ml = 30, beans_g = 8, grind = None\<rparr> \<and>
   can_brew \<lparr>clean_threshold = 5, allow_recipe_with_no_requirements = False\<rparr>
     \<lparr>name = ''espresso'', water_ml = 30, beans_g = 8, grind = None\<rparr> 20 3 None = OUT_OF_WATER"
  using can_brew_water_before_beans
          [where r = "\<lparr>name = ''espresso'', water_ml = 30, beans_g = 8, grind = None\<rparr>"
             and w = 20 and b = 3 and ms = None
             and p = "\<lparr>clean_threshold = 5, allow_recipe_with_no_requirements = False\<rparr>"]
  by (simp add: requires_water_def requires_beans_def)

text \<open>
  Claim C10. For every policy, recipe and resource levels, \<^verbatim>\<open>can_brew\<close> called without a
  maintenance state (\<^verbatim>\<open>None\<close>, the default of the parameter), or with a mapping that has no
  key \<^verbatim>\<open>"dirty_count"\<close>, returns the decision it returns for the mapping with
  \<^verbatim>\<open>"dirty_count"\<close> at 0: the missing count is read as 0 and nothing is raised.
\<close>

theorem can_brew_missing_maintenance_state:
  "can_brew p r w b None = can_brew p r w b (Some (Map.empty(''dirty_count'' \<mapsto> 0))) \<and>
   (ms ''dirty_count'' = None \<longrightarrow>
      can_brew p r w b (Some ms) = can_brew p r w b (Some (Map.empty(''dirty_count'' \<mapsto> 0))))"
proof -
  have absent: "can_brew p r w b None = can_brew p r w b (Some (Map.empty(''dirty_count'' \<mapsto> 0)))"
    by (simp add: can_brew_def)
  have no_key: "can_brew p r w b (Some ms) = can_brew p r w b (Some (Map.empty(''dirty_count'' \<mapsto> 0)))"
    if "ms ''dirty_count'' = None"
    using that by (simp add: can_brew_def)
  from absent no_key show ?thesis by blast
qed

theorem can_brew_missing_maintenance_state_witness:
  "(Map.empty(''brews_today'' \<mapsto> (7::int))) ''dirty_count'' = None \<and>
   can_brew \<lparr>clean_threshold = 0, allow_recipe_with_no_requirements = False\<rparr>
     \<lparr>name = ''espresso'', water_ml = 30, beans_g = 8, grind = None\<rparr> 100 100
     (Some (Map.empty(''brews_today'' \<mapsto> 7)))
   = can_brew \<lparr>clean_threshold = 0, allow_recipe_with_no_requirements = False\<rparr>
     \<lparr>name = ''espresso'', water_ml = 30, beans_g = 8, grind = None\<rparr> 100 100
     (Some (Map.empty(''dirty_count'' \<mapsto> 0))) \<and>
   can_brew \<lparr>clean_threshold = 0, allow_recipe_with_no_requirements = False\<rparr>
     \<lparr>name = ''espresso'', water_ml = 30, beans_g = 8, grind = None\<rparr> 100 100 None
   = NEEDS_CLEANING"
  using can_brew_missing_maintenance_state
          [where ms = "Map.empty(''brews_today'' \<mapsto> 7)" and w = 100 and b = 100
             and p = "\<lparr>clean_threshold = 0, allow_recipe_with_no_requirements = False\<rparr>"
             and r = "\<lparr>name = ''espresso'', water_ml = 30, beans_g = 8, grind = None\<rparr>"]
  by (simp add: can_brew_def requires_water_def requires_beans_def)

section \<open>Cleaning policy\<close>

text \<open>
  Claim C7. For every \<^verbatim>\<open>DefaultCleaningPolicy\<close> with a maximum time between cleans and
  every known time of the last clean from which at least that long has passed,
  \<^verbatim>\<open>evaluate\<close> returns IMMEDIATE for every dirty count, zero included: the time rule
  comes before the count rules.
\<close>

theorem evaluate_time_rule_dominates:
  assumes "max_time_between_cleans p = Some mt" and "now - ts \<ge> mt"
  shows "evaluate p now d (Some ts) = IMMEDIATE"
  using assms by (simp add: evaluate_def time_rule_applies_def)

theorem evaluate_time_rule_dominates_witness:
  "max_time_between_cleans
     \<lparr>schedule_threshold = 5, immediate_threshold = 10,
      max_time_between_cleans = Some 604800000000\<rparr> = Some 604800000000 \<and>
   (691200000000::int) - 0 \<ge> 604800000000 \<and>
   evaluate \<lparr>schedule_threshold = 5, immediate_threshold = 10,
             max_time_between_cleans = Some 604800000000\<rparr> 691200000000 0 (Some 0) = IMMEDIATE"
  using evaluate_time_rule_dominates
          [where p = "\<lparr>schedule_threshold = 5, immediate_threshold = 10,
                       max_time_between_cleans = Some 604800000000\<rparr>"
             and mt = 604800000000 and now = 691200000000 and ts = 0 and d = 0]
  by simp

text \<open>
  Claim C6, as amended. For every \<^verbatim>\<open>DefaultCleaningPolicy\<close> with a valid configuration
  (0 \<le> schedule threshold \<le> immediate threshold), which its constructor accepts, and with
  the time rule not applying (no maximum time configured, or no time of the last clean, or
  less than the maximum time passed): \<^verbatim>\<open>evaluate\<close> at a dirty count equal to the immediate
  threshold returns IMMEDIATE; at a dirty count equal to the schedule threshold it returns
  SCHEDULE when the schedule threshold is strictly below the immediate threshold, and
  IMMEDIATE when the two thresholds are equal.
\<close>

theorem evaluate_threshold_boundaries:
  assumes "0 \<le> s" and "s \<le> i"
    and "mt = None \<or> lc = None \<or> (\<exists>m ts. mt = Some m \<and> lc = Some ts \<and> now - ts < m)"
  shows
  "DefaultCleaningPolicy_init s i mt
     = Inr \<lparr>schedule_threshold = s, immediate_threshold = i, max_time_between_cleans = mt\<rparr> \<and>
   evaluate \<lparr>schedule_threshold = s, immediate_threshold = i, max_time_between_cleans = mt\<rparr>
     now i lc = IMMEDIATE \<and>
   evaluate \<lparr>schedule_threshold = s, immediate_threshold = i, max_time_between_cleans = mt\<rparr>
     now s lc = (if s < i then SCHEDULE else IMMEDIATE)"
proof -
  from assms(3) have
    "\<not> time_rule_applies
         \<lparr>schedule_threshold = s, immediate_threshold = i, max_time_between_cleans = mt\<rparr>
         now lc"
    by (auto simp: time_rule_applies_def split: option.splits)
  with assms(1,2) show ?thesis
    by (simp add: DefaultCleaningPolicy_init_def evaluate_def)
qed

theorem evaluate_threshold_boundaries_witness:
  "(0::int) \<le> 3 \<and> (3::int) \<le> 6 \<and>
   evaluate \<lparr>schedule_threshold = 3, immediate_threshold = 6,
             max_time_between_cleans = Some 604800000000\<rparr> 86400000000 6 (Some 0) = IMMEDIATE \<and>
   evaluate \<lparr>schedule_threshold = 3, immediate_threshold = 6,
             max_time_between_cleans = Some 604800000000\<rparr> 86400000000 3 (Some 0) = SCHEDULE"
  using evaluate_threshold_boundaries
          [where s = 3 and i = 6 and mt = "Some 604800000000" and lc = "Some 0"
             and now = 86400000000]
  by simp

text \<open>
  With both thresholds equal, which the constructor accepts, the band in which \<^verbatim>\<open>evaluate\<close>
  answers SCHEDULE is empty: at the schedule threshold the answer is already IMMEDIATE.
\<close>

theorem evaluate_schedule_boundary_counterexample:
  "DefaultCleaningPolicy_init 5 5 None
     = Inr \<lparr>schedule_threshold = 5, immediate_threshold = 5, max_time_between_cleans = None\<rparr> \<and>
   evaluate \<lparr>schedule_threshold = 5, immediate_threshold = 5, max_time_between_cleans = None\<rparr>
     0 5 None = IMMEDIATE \<and>
   evaluate \<lparr>schedule_threshold = 5, immediate_threshold = 5, max_time_between_cleans = None\<rparr>
     0 5 None \<noteq> SCHEDULE"
  by (simp add: DefaultCleaningPolicy_init_def evaluate_def time_rule_applies_def)

section \<open>Refill policies\<close>

text \<open>
  Claim C8. \<^verbatim>\<open>StrictRefillPolicy.on_refill\<close> with a positive amount returns the current
  level unchanged with OVERFLOW\_ERROR when current plus amount exceeds the maximum, the
  maximum with NOW\_FULL when the sum equals the maximum, and the sum with STILL\_NOT\_FULL
  otherwise; with an amount that is not positive it raises \<^verbatim>\<open>ValueError\<close>. With current
  180, amount 50 and maximum 200 it returns 180 and OVERFLOW\_ERROR.
\<close>

theorem StrictRefillPolicy_on_refill_cases:
  "(0 < a \<and> c + a > mx \<longrightarrow> StrictRefillPolicy_on_refill c a mx = Inr (c, OVERFLOW_ERROR)) \<and>
   (0 < a \<and> c + a = mx \<longrightarrow> StrictRefillPolicy_on_refill c a mx = Inr (mx, NOW_FULL)) \<and>
   (0 < a \<and> c + a < mx \<longrightarrow> StrictRefillPolicy_on_refill c a mx = Inr (c + a, STILL_NOT_FULL)) \<and>
   (a \<le> 0 \<longrightarrow> StrictRefillPolicy_on_refill c a mx = Inl ValueError) \<and>
   StrictRefillPolicy_on_refill 180 50 200 = Inr (180, OVERFLOW_ERROR)"
  by (simp add: StrictRefillPolicy_on_refill_def Let_def)

theorem StrictRefillPolicy_on_refill_cases_witness:
  "StrictRefillPolicy_on_refill 180 50 200 = Inr (180, OVERFLOW_ERROR) \<and>
   StrictRefillPolicy_on_refill 150 50 200 = Inr (200, NOW_FULL) \<and>
   StrictRefillPolicy_on_refill 100 50 200 = Inr (150, STILL_NOT_FULL) \<and>
   StrictRefillPolicy_on_refill 100 0 200 = Inl ValueError"
  using StrictRefillPolicy_on_refill_cases [where c = 180 and a = 50 and mx = 200]
        StrictRefillPolicy_on_refill_cases [where c = 150 and a = 50 and mx = 200]
        StrictRefillPolicy_on_refill_cases [where c = 100 and a = 50 and mx = 200]
        StrictRefillPolicy_on_refill_cases [where c = 100 and a = 0 and mx = 200]
  by simp

section \<open>The machine: brew\<close>

lemma brew_rejected:
  assumes "active_recipe m = Some r"
    and "brew_policy m r (current_level (water_tank m)) (current_grams (bean_container m))
           (Some (Map.empty(''dirty_count'' \<mapsto> dirty_count m))) = d"
    and "d \<noteq> OK"
  shows "brew now m = (m\<lparr>state := BrewDecision_name d\<rparr>, Inr d)"
  using assms by (simp add: brew_def)

lemma brew_accepted:
  assumes "active_recipe m = Some r"
    and "brew_policy m r (current_level (water_tank m)) (current_grams (bean_container m))
           (Some (Map.empty(''dirty_count'' \<mapsto> dirty_count m))) = OK"
    and "requires_water r \<longrightarrow> water_ml r \<le> current_level (water_tank m)"
    and "requires_beans r \<longrightarrow> beans_g r \<le> current_grams (bean_container m)"
  shows "brew now m =
    (m\<lparr>water_tank :=
          (if requires_water r
             then (water_tank m)\<lparr>current_level := current_level (water_tank m) - water_ml r\<rparr>
           else water_tank m),
        bean_container :=
          (if requires_beans r
             then (bean_container m)\<lparr>current_grams := current_grams (bean_container m) - beans_g r\<rparr>
           else bean_container m),
        dirty_count := dirty_count m + 1,
        cleaning_scheduled :=
          (cleaning_policy m now (dirty_count m + 1) (last_cleaned_ts m) = SCHEDULE
           \<or> cleaning_scheduled m),
        state :=
          (if cleaning_policy m now (dirty_count m + 1) (last_cleaned_ts m) = IMMEDIATE
             then ''NEEDS_CLEANING'' else ''IDLE'')\<rparr>,
     Inr OK)"
proof -
  from assms(3)
  have water: "requires_water r \<Longrightarrow>
      consume_water (water_tank m) (water_ml r)
        = ((water_tank m)\<lparr>current_level := current_level (water_tank m) - water_ml r\<rparr>, Inr ())"
    by (auto simp: consume_water_cases requires_water_def)
  from assms(4)
  have beans: "requires_beans r \<Longrightarrow>
      consume_beans (bean_container m) (beans_g r)
        = ((bean_container m)\<lparr>current_grams := current_grams (bean_container m) - beans_g r\<rparr>,
           Inr ())"
    by (auto simp: consume_beans_cases requires_beans_def)
  show ?thesis
  proof (cases "requires_water r")
    case rw: True
    show ?thesis
    proof (cases "requires_beans r")
      case True
      with rw assms(1,2) water beans show ?thesis
        by (simp add: brew_def Let_def)
    next
      case False
      with rw assms(1,2) water show ?thesis
        by (simp add: brew_def Let_def)
    qed
  next
    case nrw: False
    show ?thesis
    proof (cases "requires_beans r")
      case True
      with nrw assms(1,2) beans show ?thesis
        by (simp add: brew_def Let_def)
    next
      case False
      with nrw assms(1,2) show ?thesis
        by (simp add: brew_def Let_def)
    qed
  qed
qed

text \<open>
  Claim C9. Whenever \<^verbatim>\<open>DefaultBrewPolicy.can_brew\<close> returns OK for the active recipe on the
  machine's current water and bean levels, the consumptions \<^verbatim>\<open>brew\<close> performs cannot fail:
  OK gives enough water when the recipe requires water and enough beans when it requires
  beans, the amount consumed is positive exactly when the resource is required, so
  \<^verbatim>\<open>consume_water\<close> and \<^verbatim>\<open>consume_beans\<close> return normally and \<^verbatim>\<open>brew\<close>, on a machine whose
  brew policy is that default policy, returns OK without raising.
\<close>

theorem brew_consumption_cannot_fail:
  assumes "active_recipe m = Some r"
    and "brew_policy m = can_brew p"
    and "can_brew p r (current_level (water_tank m)) (current_grams (bean_container m))
           (Some (Map.empty(''dirty_count'' \<mapsto> dirty_count m))) = OK"
  shows
  "(requires_water r \<longleftrightarrow> 0 < water_ml r) \<and>
   (requires_beans r \<longleftrightarrow> 0 < beans_g r) \<and>
   (requires_water r \<longrightarrow>
      water_ml r \<le> current_level (water_tank m) \<and>
      snd (consume_water (water_tank m) (water_ml r)) = Inr ()) \<and>
   (requires_beans r \<longrightarrow>
      beans_g r \<le> current_grams (bean_container m) \<and>
      snd (consume_beans (bean_container m) (beans_g r)) = Inr ()) \<and>
   snd (brew now m) = Inr OK"
proof -
  have pos: "(requires_water r \<longleftrightarrow> 0 < water_ml r) \<and> (requires_beans r \<longleftrightarrow> 0 < beans_g r)"
    by (simp add: requires_water_def requires_beans_def)
  from can_brew_OK_sufficient [OF assms(3)]
  have enough: "requires_water r \<longrightarrow> 0 < water_ml r \<and> water_ml r \<le> current_level (water_tank m)"
    "requires_beans r \<longrightarrow> 0 < beans_g r \<and> beans_g r \<le> current_grams (bean_container m)"
    by simp_all
  then have consumed:
    "requires_water r \<longrightarrow> snd (consume_water (water_tank m) (water_ml r)) = Inr ()"
    "requires_beans r \<longrightarrow> snd (consume_beans (bean_container m) (beans_g r)) = Inr ()"
    by (auto simp: consume_water_cases consume_beans_cases)
  from assms(2,3) have decision:
    "brew_policy m r (current_level (water_tank m)) (current_grams (bean_container m))
       (Some (Map.empty(''dirty_count'' \<mapsto> dirty_count m))) = OK"
    by simp
  from enough have suffices:
    "requires_water r \<longrightarrow> water_ml r \<le> current_level (water_tank m)"
    "requires_beans r \<longrightarrow> beans_g r \<le> current_grams (bean_container m)"
    by simp_all
  have "snd (brew now m) = Inr OK"
    by (simp add: brew_accepted [OF assms(1) decision suffices])
  with pos enough consumed show ?thesis by blast
qed

theorem brew_consumption_cannot_fail_witness:
  "active_recipe
     (select_recipe
        (SimpleCoffeeMachine_init \<lparr>maximum_level = 500, current_level = 30\<rparr>
           \<lparr>maximum_grams = 500, current_grams = 8\<rparr>
           (can_brew \<lparr>clean_threshold = 5, allow_recipe_with_no_requirements = False\<rparr>)
           (evaluate \<lparr>schedule_threshold = 3, immediate_threshold = 6,
              max_time_between_cleans = Some 604800000000\<rparr>)
           CapRefillPolicy_on_refill)
        \<lparr>name = ''espresso'', water_ml = 30, beans_g = 8, grind = None\<rparr>)
     = Some \<lparr>name = ''espresso'', water_ml = 30, beans_g = 8, grind = None\<rparr> \<and>
   brew_policy
     (select_recipe
        (SimpleCoffeeMachine_init \<lparr>maximum_level = 500, current_level = 30\<rparr>
           \<lparr>maximum_grams = 500, current_grams = 8\<rparr>
           (can_brew \<lparr>clean_threshold = 5, allow_recipe_with_no_requirements = False\<rparr>)
           (evaluate \<lparr>schedule_threshold = 3, immediate_threshold = 6,
              max_time_between_cleans = Some 604800000000\<rparr>)
           CapRefillPolicy_on_refill)
        \<lparr>name = ''espresso'', water_ml = 30, beans_g = 8, grind = None\<rparr>)
     = can_brew \<lparr>clean_threshold = 5, allow_recipe_with_no_requirements = False\<rparr> \<and>
   can_brew \<lparr>clean_threshold = 5, allow_recipe_with_no_requirements = False\<rparr>
     \<lparr>name = ''espresso'', water_ml = 30, beans_g = 8, grind = None\<rparr> 30 8
     (Some (Map.empty(''dirty_count'' \<mapsto> 0))) = OK \<and>
   snd (consume_water \<lparr>maximum_level = 500, current_level = 30\<rparr> 30) = Inr () \<and>
   snd (consume_beans \<lparr>maximum_grams = 500, current_grams = 8\<rparr> 8) = Inr () \<and>
   snd (brew 0
     (select_recipe
        (SimpleCoffeeMachine_init \<lparr>maximum_level = 500, current_level = 30\<rparr>
           \<lparr>maximum_grams = 500, current_grams = 8\<rparr>
           (can_brew \<lparr>clean_threshold = 5, allow_recipe_with_no_requirements = False\<rparr>)
           (evaluate \<lparr>schedule_threshold = 3, immediate_threshold = 6,
              max_time_between_cleans = Some 604800000000\<rparr>)
           CapRefillPolicy_on_refill)
        \<lparr>name = ''espresso'', water_ml = 30, beans_g = 8, grind = None\<rparr>)) = Inr OK"
  using brew_consumption_cannot_fail
          [where m = "(select_recipe
        (SimpleCoffeeMachine_init \<lparr>maximum_level = 500, current_level = 30\<rparr>
           \<lparr>maximum_grams = 500, current_grams = 8\<rparr>
           (can_brew \<lparr>clean_threshold = 5, allow_recipe_with_no_requirements = False\<rparr>)
           (evaluate \<lparr>schedule_threshold = 3, immediate_threshold = 6,
              max_time_between_cleans = Some 604800000000\<rparr>)
           CapRefillPolicy_on_refill)
        \<lparr>name = ''espresso'', water_ml = 30, beans_g = 8, grind = None\<rparr>)"
             and r = "\<lparr>name = ''espresso'', water_ml = 30, beans_g = 8, grind = None\<rparr>"
             and p = "\<lparr>clean_threshold = 5, allow_recipe_with_no_requirements = False\<rparr>"
             and now = 0]
  by (simp add: select_recipe_def SimpleCoffeeMachine_init_def can_brew_def
      requires_water_def requires_beans_def)

text \<open>
  Claim C1, as amended. For every machine with an active recipe, \<^verbatim>\<open>brew\<close> asks the brew
  policy for a decision on the current water level, the current bean level and the dirty
  count. When the decision is not OK, the machine sets its state to the decision's name,
  returns the decision, and changes nothing else: both containers and the dirty count are as
  before. When the decision is OK and the water tank holds at least the recipe's water
  whenever the recipe requires water and the bean container holds at least the recipe's beans
  whenever the recipe requires beans, which is so whenever the brew policy is a
  \<^verbatim>\<open>DefaultBrewPolicy\<close>, the machine takes the recipe's water from the tank only if the recipe
  requires water and the recipe's beans from the bean container only if the recipe requires
  beans, adds exactly 1 to the dirty count, evaluates the cleaning policy on the new dirty
  count, sets the state to NEEDS\_CLEANING on IMMEDIATE, sets the cleaning flag and the state
  IDLE on SCHEDULE, sets the state IDLE on NO\_ACTION, and returns OK. A machine built with
  water 150 of 500 and beans 50 of 500, with the default policies built from their default
  arguments (and also with the policies the command-line runner builds), with espresso
  (30 ml, 8 g) selected, returns OK from \<^verbatim>\<open>brew\<close> and is left with water 120, beans 42, dirty
  count 1 and state IDLE.
\<close>

theorem brew_behaviour:
  assumes "active_recipe m = Some r"
  shows
  "(let d = brew_policy m r (current_level (water_tank m)) (current_grams (bean_container m))
              (Some (Map.empty(''dirty_count'' \<mapsto> dirty_count m)));
        a = cleaning_policy m now (dirty_count m + 1) (last_cleaned_ts m);
        m' = fst (brew now m);
        enough =
          ((requires_water r \<longrightarrow> water_ml r \<le> current_level (water_tank m)) \<and>
           (requires_beans r \<longrightarrow> beans_g r \<le> current_grams (bean_container m)))
    in (d \<noteq> OK \<longrightarrow>
          snd (brew now m) = Inr d \<and> m' = m\<lparr>state := BrewDecision_name d\<rparr> \<and>
          water_tank m' = water_tank m \<and> bean_container m' = bean_container m \<and>
          dirty_count m' = dirty_count m) \<and>
       (d = OK \<and> enough \<longrightarrow>
          snd (brew now m) = Inr OK \<and>
          water_tank m' =
            (if requires_water r
               then (water_tank m)\<lparr>current_level := current_level (water_tank m) - water_ml r\<rparr>
             else water_tank m) \<and>
          bean_container m' =
            (if requires_beans r
               then (bean_container m)\<lparr>current_grams :=
                      current_grams (bean_container m) - beans_g r\<rparr>
             else bean_container m) \<and>
          dirty_count m' = dirty_count m + 1 \<and>
          (a = IMMEDIATE \<longrightarrow>
             state m' = ''NEEDS_CLEANING'' \<and> cleaning_scheduled m' = cleaning_scheduled m) \<and>
          (a = SCHEDULE \<longrightarrow> cleaning_scheduled m' \<and> state m' = ''IDLE'') \<and>
          (a = NO_ACTION \<longrightarrow>
             state m' = ''IDLE'' \<and> cleaning_scheduled m' = cleaning_scheduled m)) \<and>
       (d = OK \<and> brew_policy m = can_brew p \<longrightarrow> enough)) \<and>
   (case WaterTank_init 500 150 of
      Inl e \<Rightarrow> False
    | Inr wt \<Rightarrow>
       (case BeanContainer_init 500 50 of
          Inl e \<Rightarrow> False
        | Inr bc \<Rightarrow>
           (case DefaultBrewPolicy_init 100 False of
              Inl e \<Rightarrow> False
            | Inr bp \<Rightarrow>
               (case DefaultCleaningPolicy_init 80 120 None of
                  Inl e \<Rightarrow> False
                | Inr cp \<Rightarrow>
                   (let res = brew now
                          (select_recipe
                             (SimpleCoffeeMachine_init wt bc (can_brew bp) (evaluate cp)
                                CapRefillPolicy_on_refill)
                             \<lparr>name = ''espresso'', water_ml = 30, beans_g = 8, grind = None\<rparr>)
                    in snd res = Inr OK \<and>
                       current_level (water_tank (fst res)) = 120 \<and>
                       current_grams (bean_container (fst res)) = 42 \<and>
                       dirty_count (fst res) = 1 \<and> state (fst res) = ''IDLE''))))) \<and>
   (case WaterTank_init 500 150 of
      Inl e \<Rightarrow> False
    | Inr wt \<Rightarrow>
       (case BeanContainer_init 500 50 of
          Inl e \<Rightarrow> False
        | Inr bc \<Rightarrow>
           (case DefaultBrewPolicy_init 5 False of
              Inl e \<Rightarrow> False
            | Inr bp \<Rightarrow>
               (case DefaultCleaningPolicy_init 3 6 (Some 604800000000) of
                  Inl e \<Rightarrow> False
                | Inr cp \<Rightarrow>
                   (let res = brew now
                          (select_recipe
                             (SimpleCoffeeMachine_init wt bc (can_brew bp) (evaluate cp)
                                CapRefillPolicy_on_refill)
                             \<lparr>name = ''espresso'', water_ml = 30, beans_g = 8, grind = None\<rparr>)
                    in snd res = Inr OK \<and>
                       current_level (water_tank (fst res)) = 120 \<and>
                       current_grams (bean_container (fst res)) = 42 \<and>
                       dirty_count (fst res) = 1 \<and> state (fst res) = ''IDLE'')))))"
proof -
  let ?d = "brew_policy m r (current_level (water_tank m)) (current_grams (bean_container m))
              (Some (Map.empty(''dirty_count'' \<mapsto> dirty_count m)))"
  let ?a = "cleaning_policy m now (dirty_count m + 1) (last_cleaned_ts m)"
  let ?enough = "((requires_water r \<longrightarrow> water_ml r \<le> current_level (water_tank m)) \<and>
           (requires_beans r \<longrightarrow> beans_g r \<le> current_grams (bean_container m)))"
  have rejected: "?d \<noteq> OK \<longrightarrow>
          snd (brew now m) = Inr ?d \<and> (fst (brew now m)) = m\<lparr>state := BrewDecision_name ?d\<rparr> \<and>
          water_tank (fst (brew now m)) = water_tank m \<and> bean_container (fst (brew now m)) = bean_container m \<and>
          dirty_count (fst (brew now m)) = dirty_count m"
  proof
    assume "?d \<noteq> OK"
    from brew_rejected [OF assms refl this, of now] show
      "snd (brew now m) = Inr ?d \<and> (fst (brew now m)) = m\<lparr>state := BrewDecision_name ?d\<rparr> \<and>
          water_tank (fst (brew now m)) = water_tank m \<and> bean_container (fst (brew now m)) = bean_container m \<and>
          dirty_count (fst (brew now m)) = dirty_count m"
      by simp
  qed
  have accepted: "?d = OK \<and> ?enough \<longrightarrow>
          snd (brew now m) = Inr OK \<and>
          water_tank (fst (brew now m)) =
            (if requires_water r
               then (water_tank m)\<lparr>current_level := current_level (water_tank m) - water_ml r\<rparr>
             else water_tank m) \<and>
          bean_container (fst (brew now m)) =
            (if requires_beans r
               then (bean_container m)\<lparr>current_grams :=
                      current_grams (bean_container m) - beans_g r\<rparr>
             else bean_container m) \<and>
          dirty_count (fst (brew now m)) = dirty_count m + 1 \<and>
          (?a = IMMEDIATE \<longrightarrow>
             state (fst (brew now m)) = ''NEEDS_CLEANING'' \<and> cleaning_scheduled (fst (brew now m)) = cleaning_scheduled m) \<and>
          (?a = SCHEDULE \<longrightarrow> cleaning_scheduled (fst (brew now m)) \<and> state (fst (brew now m)) = ''IDLE'') \<and>
          (?a = NO_ACTION \<longrightarrow>
             state (fst (brew now m)) = ''IDLE'' \<and> cleaning_scheduled (fst (brew now m)) = cleaning_scheduled m)"
  proof
    assume ok: "?d = OK \<and> ?enough"
    then have dec: "?d = OK"
      and water: "requires_water r \<longrightarrow> water_ml r \<le> current_level (water_tank m)"
      and beans: "requires_beans r \<longrightarrow> beans_g r \<le> current_grams (bean_container m)"
      by simp_all
    show "snd (brew now m) = Inr OK \<and>
          water_tank (fst (brew now m)) =
            (if requires_water r
               then (water_tank m)\<lparr>current_level := current_level (water_tank m) - water_ml r\<rparr>
             else water_tank m) \<and>
          bean_container (fst (brew now m)) =
            (if requires_beans r
               then (bean_container m)\<lparr>current_grams :=
                      current_grams (bean_container m) - beans_g r\<rparr>
             else bean_container m) \<and>
          dirty_count (fst (brew now m)) = dirty_count m + 1 \<and>
          (?a = IMMEDIATE \<longrightarrow>
             state (fst (brew now m)) = ''NEEDS_CLEANING'' \<and> cleaning_scheduled (fst (brew now m)) = cleaning_scheduled m) \<and>
          (?a = SCHEDULE \<longrightarrow> cleaning_scheduled (fst (brew now m)) \<and> state (fst (brew now m)) = ''IDLE'') \<and>
          (?a = NO_ACTION \<longrightarrow>
             state (fst (brew now m)) = ''IDLE'' \<and> cleaning_scheduled (fst (brew now m)) = cleaning_scheduled m)"
      unfolding brew_accepted [OF assms dec water beans, of now] by simp
  qed
  have default_enough: "?d = OK \<and> brew_policy m = can_brew p \<longrightarrow> ?enough"
  proof
    assume both: "?d = OK \<and> brew_policy m = can_brew p"
    then have injected: "brew_policy m = can_brew p" by (rule conjunct2)
    from both have "?d = OK" by (rule conjunct1)
    then have "can_brew p r (current_level (water_tank m)) (current_grams (bean_container m))
        (Some (Map.empty(''dirty_count'' \<mapsto> dirty_count m))) = OK"
      unfolding injected .
    from can_brew_OK_sufficient [OF this] show ?enough by simp
  qed
  have defaults: "brew now
      (select_recipe
        (SimpleCoffeeMachine_init \<lparr>maximum_level = 500, current_level = 150\<rparr>
           \<lparr>maximum_grams = 500, current_grams = 50\<rparr>
           (can_brew \<lparr>clean_threshold = 100, allow_recipe_with_no_requirements = False\<rparr>)
           (evaluate \<lparr>schedule_threshold = 80, immediate_threshold = 120,
              max_time_between_cleans = None\<rparr>)
           CapRefillPolicy_on_refill)
        \<lparr>name = ''espresso'', water_ml = 30, beans_g = 8, grind = None\<rparr>)
    = (\<lparr>water_tank = \<lparr>maximum_level = 500, current_level = 120\<rparr>,
       bean_container = \<lparr>maximum_grams = 500, current_grams = 42\<rparr>,
       brew_policy = can_brew \<lparr>clean_threshold = 100, allow_recipe_with_no_requirements = False\<rparr>,
       cleaning_policy = evaluate \<lparr>schedule_threshold = 80, immediate_threshold = 120,
              max_time_between_cleans = None\<rparr>,
       refill_policy = CapRefillPolicy_on_refill, state = ''IDLE'',
       active_recipe = Some \<lparr>name = ''espresso'', water_ml = 30, beans_g = 8, grind = None\<rparr>,
       dirty_count = 1, last_cleaned_ts = None, cleaning_scheduled = False\<rparr>, Inr OK)"
    by (simp add: brew_def select_recipe_def SimpleCoffeeMachine_init_def can_brew_def
        requires_water_def requires_beans_def consume_water_cases consume_beans_cases
        evaluate_def time_rule_applies_def)
  have runner: "brew now
      (select_recipe
        (SimpleCoffeeMachine_init \<lparr>maximum_level = 500, current_level = 150\<rparr>
           \<lparr>maximum_grams = 500, current_grams = 50\<rparr>
           (can_brew \<lparr>clean_threshold = 5, allow_recipe_with_no_requirements = False\<rparr>)
           (evaluate \<lparr>schedule_threshold = 3, immediate_threshold = 6,
              max_time_between_cleans = Some 604800000000\<rparr>)
           CapRefillPolicy_on_refill)
        \<lparr>name = ''espresso'', water_ml = 30, beans_g = 8, grind = None\<rparr>)
    = (\<lparr>water_tank = \<lparr>maximum_level = 500, current_level = 120\<rparr>,
       bean_container = \<lparr>maximum_grams = 500, current_grams = 42\<rparr>,
       brew_policy = can_brew \<lparr>clean_threshold = 5, allow_recipe_with_no_requirements = False\<rparr>,
       cleaning_policy = evaluate \<lparr>schedule_threshold = 3, immediate_threshold = 6,
              max_time_between_cleans = Some 604800000000\<rparr>,
       refill_policy = CapRefillPolicy_on_refill, state = ''IDLE'',
       active_recipe = Some \<lparr>name = ''espresso'', water_ml = 30, beans_g = 8, grind = None\<rparr>,
       dirty_count = 1, last_cleaned_ts = None, cleaning_scheduled = False\<rparr>, Inr OK)"
    by (simp add: brew_def select_recipe_def SimpleCoffeeMachine_init_def can_brew_def
        requires_water_def requires_beans_def consume_water_cases consume_beans_cases
        evaluate_def time_rule_applies_def)
  have scenario_defaults:
    "(case WaterTank_init 500 150 of
      Inl e \<Rightarrow> False
    | Inr wt \<Rightarrow>
       (case BeanContainer_init 500 50 of
          Inl e \<Rightarrow> False
        | Inr bc \<Rightarrow>
           (case DefaultBrewPolicy_init 100 False of
              Inl e \<Rightarrow> False
            | Inr bp \<Rightarrow>
               (case DefaultCleaningPolicy_init 80 120 None of
                  Inl e \<Rightarrow> False
                | Inr cp \<Rightarrow>
                   (let res = brew now
                          (select_recipe
                             (SimpleCoffeeMachine_init wt bc (can_brew bp) (evaluate cp)
                                CapRefillPolicy_on_refill)
                             \<lparr>name = ''espresso'', water_ml = 30, beans_g = 8, grind = None\<rparr>)
                    in snd res = Inr OK \<and>
                       current_level (water_tank (fst res)) = 120 \<and>
                       current_grams (bean_container (fst res)) = 42 \<and>
                       dirty_count (fst res) = 1 \<and> state (fst res) = ''IDLE'')))))"
    by (simp add: WaterTank_init_def BeanContainer_init_def DefaultBrewPolicy_init_def
        DefaultCleaningPolicy_init_def defaults)
  have scenario_runner:
    "(case WaterTank_init 500 150 of
      Inl e \<Rightarrow> False
    | Inr wt \<Rightarrow>
       (case BeanContainer_init 500 50 of
          Inl e \<Rightarrow> False
        | Inr bc \<Rightarrow>
           (case DefaultBrewPolicy_init 5 False of
              Inl e \<Rightarrow> False
            | Inr bp \<Rightarrow>
               (case DefaultCleaningPolicy_init 3 6 (Some 604800000000) of
                  Inl e \<Rightarrow> False
                | Inr cp \<Rightarrow>
                   (let res = brew now
                          (select_recipe
                             (SimpleCoffeeMachine_init wt bc (can_brew bp) (evaluate cp)
                                CapRefillPolicy_on_refill)
                             \<lparr>name = ''espresso'', water_ml = 30, beans_g = 8, grind = None\<rparr>)
                    in snd res = Inr OK \<and>
                       current_level (water_tank (fst res)) = 120 \<and>
                       current_grams (bean_container (fst res)) = 42 \<and>
                       dirty_count (fst res) = 1 \<and> state (fst res) = ''IDLE'')))))"
    by (simp add: WaterTank_init_def BeanContainer_init_def DefaultBrewPolicy_init_def
        DefaultCleaningPolicy_init_def runner)
  from rejected accepted default_enough scenario_defaults scenario_runner show ?thesis
    unfolding Let_def by - (intro conjI; assumption)
qed

theorem brew_behaviour_witness:
  "active_recipe
     \<lparr>water_tank = \<lparr>maximum_level = 500, current_level = 20\<rparr>,
       bean_container = \<lparr>maximum_grams = 500, current_grams = 50\<rparr>,
       brew_policy = can_brew \<lparr>clean_threshold = 5, allow_recipe_with_no_requirements = False\<rparr>,
       cleaning_policy = evaluate \<lparr>schedule_threshold = 3, immediate_threshold = 6,
              max_time_between_cleans = Some 604800000000\<rparr>,
       refill_policy = CapRefillPolicy_on_refill, state = ''IDLE'',
       active_recipe = Some \<lparr>name = ''espresso'', water_ml = 30, beans_g = 8, grind = None\<rparr>,
       dirty_count = 0, last_cleaned_ts = None, cleaning_scheduled = False\<rparr>
     = Some \<lparr>name = ''espresso'', water_ml = 30, beans_g = 8, grind = None\<rparr> \<and>
   brew 0
     \<lparr>water_tank = \<lparr>maximum_level = 500, current_level = 20\<rparr>,
       bean_container = \<lparr>maximum_grams = 500, current_grams = 50\<rparr>,
       brew_policy = can_brew \<lparr>clean_threshold = 5, allow_recipe_with_no_requirements = False\<rparr>,
       cleaning_policy = evaluate \<lparr>schedule_threshold = 3, immediate_threshold = 6,
              max_time_between_cleans = Some 604800000000\<rparr>,
       refill_policy = CapRefillPolicy_on_refill, state = ''IDLE'',
       active_recipe = Some \<lparr>name = ''espresso'', water_ml = 30, beans_g = 8, grind = None\<rparr>,
       dirty_count = 0, last_cleaned_ts = None, cleaning_scheduled = False\<rparr>
   = (\<lparr>water_tank = \<lparr>maximum_level = 500, current_level = 20\<rparr>,
       bean_container = \<lparr>maximum_grams = 500, current_grams = 50\<rparr>,
       brew_policy = can_brew \<lparr>clean_threshold = 5, allow_recipe_with_no_requirements = False\<rparr>,
       cleaning_policy = evaluate \<lparr>schedule_threshold = 3, immediate_threshold = 6,
              max_time_between_cleans = Some 604800000000\<rparr>,
       refill_policy = CapRefillPolicy_on_refill, state = ''IDLE'',
       active_recipe = Some \<lparr>name = ''espresso'', water_ml = 30, beans_g = 8, grind = None\<rparr>,
       dirty_count = 0, last_cleaned_ts = None, cleaning_scheduled = False\<rparr>
        \<lparr>state := ''OUT_OF_WATER''\<rparr>, Inr OUT_OF_WATER) \<and>
   snd (brew 0
     \<lparr>water_tank = \<lparr>maximum_level = 500, current_level = 150\<rparr>,
       bean_container = \<lparr>maximum_grams = 500, current_grams = 50\<rparr>,
       brew_policy = can_brew \<lparr>clean_threshold = 5, allow_recipe_with_no_requirements = False\<rparr>,
       cleaning_policy = evaluate \<lparr>schedule_threshold = 3, immediate_threshold = 6,
              max_time_between_cleans = Some 604800000000\<rparr>,
       refill_policy = CapRefillPolicy_on_refill, state = ''IDLE'',
       active_recipe = Some \<lparr>name = ''espresso'', water_ml = 30, beans_g = 8, grind = None\<rparr>,
       dirty_count = 2, last_cleaned_ts = None, cleaning_scheduled = False\<rparr>) = Inr OK \<and>
   cleaning_scheduled (fst (brew 0
     \<lparr>water_tank = \<lparr>maximum_level = 500, current_level = 150\<rparr>,
       bean_container = \<lparr>maximum_grams = 500, current_grams = 50\<rparr>,
       brew_policy = can_brew \<lparr>clean_threshold = 5, allow_recipe_with_no_requirements = False\<rparr>,
       cleaning_policy = evaluate \<lparr>schedule_threshold = 3, immediate_threshold = 6,
              max_time_between_cleans = Some 604800000000\<rparr>,
       refill_policy = CapRefillPolicy_on_refill, state = ''IDLE'',
       active_recipe = Some \<lparr>name = ''espresso'', water_ml = 30, beans_g = 8, grind = None\<rparr>,
       dirty_count = 2, last_cleaned_ts = None, cleaning_scheduled = False\<rparr>)) \<and>
   state (fst (brew 0
     \<lparr>water_tank = \<lparr>maximum_level = 500, current_level = 150\<rparr>,
       bean_container = \<lparr>maximum_grams = 500, current_grams = 50\<rparr>,
       brew_policy = can_brew \<lparr>clean_threshold = 5, allow_recipe_with_no_requirements = False\<rparr>,
       cleaning_policy = evaluate \<lparr>schedule_threshold = 3, immediate_threshold = 6,
              max_time_between_cleans = Some 604800000000\<rparr>,
       refill_policy = CapRefillPolicy_on_refill, state = ''IDLE'',
       active_recipe = Some \<lparr>name = ''espresso'', water_ml = 30, beans_g = 8, grind = None\<rparr>,
       dirty_count = 2, last_cleaned_ts = None, cleaning_scheduled = False\<rparr>)) = ''IDLE'' \<and>
   dirty_count (fst (brew 0
     \<lparr>water_tank = \<lparr>maximum_level = 500, current_level = 150\<rparr>,
       bean_container = \<lparr>maximum_grams = 500, current_grams = 50\<rparr>,
       brew_policy = can_brew \<lparr>clean_threshold = 5, allow_recipe_with_no_requirements = False\<rparr>,
       cleaning_policy = evaluate \<lparr>schedule_threshold = 3, immediate_threshold = 6,
              max_time_between_cleans = Some 604800000000\<rparr>,
       refill_policy = CapRefillPolicy_on_refill, state = ''IDLE'',
       active_recipe = Some \<lparr>name = ''espresso'', water_ml = 30, beans_g = 8, grind = None\<rparr>,
       dirty_count = 2, last_cleaned_ts = None, cleaning_scheduled = False\<rparr>)) = 3 \<and>
   state (fst (brew 0
     \<lparr>water_tank = \<lparr>maximum_level = 500, current_level = 150\<rparr>,
       bean_container = \<lparr>maximum_grams = 500, current_grams = 50\<rparr>,
       brew_policy = can_brew \<lparr>clean_threshold = 100, allow_recipe_with_no_requirements = False\<rparr>,
       cleaning_policy = evaluate \<lparr>schedule_threshold = 3, immediate_threshold = 6,
              max_time_between_cleans = Some 604800000000\<rparr>,
       refill_policy = CapRefillPolicy_on_refill, state = ''IDLE'',
       active_recipe = Some \<lparr>name = ''espresso'', water_ml = 30, beans_g = 8, grind = None\<rparr>,
       dirty_count = 5, last_cleaned_ts = None, cleaning_scheduled = False\<rparr>)) = ''NEEDS_CLEANING'' \<and>
   snd (brew 0
     \<lparr>water_tank = \<lparr>maximum_level = 500, current_level = 150\<rparr>,
       bean_container = \<lparr>maximum_grams = 500, current_grams = 50\<rparr>,
       brew_policy = \<lambda>recipe water beans ms. OK,
       cleaning_policy = evaluate \<lparr>schedule_threshold = 3, immediate_threshold = 6,
              max_time_between_cleans = Some 604800000000\<rparr>,
       refill_policy = CapRefillPolicy_on_refill, state = ''IDLE'',
       active_recipe = Some \<lparr>name = ''espresso'', water_ml = 30, beans_g = 8, grind = None\<rparr>,
       dirty_count = 0, last_cleaned_ts = None, cleaning_scheduled = False\<rparr>) = Inr OK \<and>
   current_grams (bean_container (fst (brew 0
     \<lparr>water_tank = \<lparr>maximum_level = 500, current_level = 150\<rparr>,
       bean_container = \<lparr>maximum_grams = 500, current_grams = 50\<rparr>,
       brew_policy = \<lambda>recipe water beans ms. OK,
       cleaning_policy = evaluate \<lparr>schedule_threshold = 3, immediate_threshold = 6,
              max_time_between_cleans = Some 604800000000\<rparr>,
       refill_policy = CapRefillPolicy_on_refill, state = ''IDLE'',
       active_recipe = Some \<lparr>name = ''espresso'', water_ml = 30, beans_g = 8, grind = None\<rparr>,
       dirty_count = 0, last_cleaned_ts = None, cleaning_scheduled = False\<rparr>))) = 42"
  using brew_behaviour
          [where now = 0 and r = "\<lparr>name = ''espresso'', water_ml = 30, beans_g = 8, grind = None\<rparr>" and p = "\<lparr>clean_threshold = 5, allow_recipe_with_no_requirements = False\<rparr>"
             and m = "\<lparr>water_tank = \<lparr>maximum_level = 500, current_level = 20\<rparr>,
       bean_container = \<lparr>maximum_grams = 500, current_grams = 50\<rparr>,
       brew_policy = can_brew \<lparr>clean_threshold = 5, allow_recipe_with_no_requirements = False\<rparr>,
       cleaning_policy = evaluate \<lparr>schedule_threshold = 3, immediate_threshold = 6,
              max_time_between_cleans = Some 604800000000\<rparr>,
       refill_policy = CapRefillPolicy_on_refill, state = ''IDLE'',
       active_recipe = Some \<lparr>name = ''espresso'', water_ml = 30, beans_g = 8, grind = None\<rparr>,
       dirty_count = 0, last_cleaned_ts = None, cleaning_scheduled = False\<rparr>"]
        brew_behaviour
          [where now = 0 and r = "\<lparr>name = ''espresso'', water_ml = 30, beans_g = 8, grind = None\<rparr>" and p = "\<lparr>clean_threshold = 5, allow_recipe_with_no_requirements = False\<rparr>"
             and m = "\<lparr>water_tank = \<lparr>maximum_level = 500, current_level = 150\<rparr>,
       bean_container = \<lparr>maximum_grams = 500, current_grams = 50\<rparr>,
       brew_policy = can_brew \<lparr>clean_threshold = 5, allow_recipe_with_no_requirements = False\<rparr>,
       cleaning_policy = evaluate \<lparr>schedule_threshold = 3, immediate_threshold = 6,
              max_time_between_cleans = Some 604800000000\<rparr>,
       refill_policy = CapRefillPolicy_on_refill, state = ''IDLE'',
       active_recipe = Some \<lparr>name = ''espresso'', water_ml = 30, beans_g = 8, grind = None\<rparr>,
       dirty_count = 2, last_cleaned_ts = None, cleaning_scheduled = False\<rparr>"]
        brew_behaviour
          [where now = 0 and r = "\<lparr>name = ''espresso'', water_ml = 30, beans_g = 8, grind = None\<rparr>" and p = "\<lparr>clean_threshold = 100, allow_recipe_with_no_requirements = False\<rparr>"
             and m = "\<lparr>water_tank = \<lparr>maximum_level = 500, current_level = 150\<rparr>,
       bean_container = \<lparr>maximum_grams = 500, current_grams = 50\<rparr>,
       brew_policy = can_brew \<lparr>clean_threshold = 100, allow_recipe_with_no_requirements = False\<rparr>,
       cleaning_policy = evaluate \<lparr>schedule_threshold = 3, immediate_threshold = 6,
              max_time_between_cleans = Some 604800000000\<rparr>,
       refill_policy = CapRefillPolicy_on_refill, state = ''IDLE'',
       active_recipe = Some \<lparr>name = ''espresso'', water_ml = 30, beans_g = 8, grind = None\<rparr>,
       dirty_count = 5, last_cleaned_ts = None, cleaning_scheduled = False\<rparr>"]
        brew_behaviour
          [where now = 0 and r = "\<lparr>name = ''espresso'', water_ml = 30, beans_g = 8, grind = None\<rparr>" and p = "\<lparr>clean_threshold = 5, allow_recipe_with_no_requirements = False\<rparr>"
             and m = "\<lparr>water_tank = \<lparr>maximum_level = 500, current_level = 150\<rparr>,
       bean_container = \<lparr>maximum_grams = 500, current_grams = 50\<rparr>,
       brew_policy = \<lambda>recipe water beans ms. OK,
       cleaning_policy = evaluate \<lparr>schedule_threshold = 3, immediate_threshold = 6,
              max_time_between_cleans = Some 604800000000\<rparr>,
       refill_policy = CapRefillPolicy_on_refill, state = ''IDLE'',
       active_recipe = Some \<lparr>name = ''espresso'', water_ml = 30, beans_g = 8, grind = None\<rparr>,
       dirty_count = 0, last_cleaned_ts = None, cleaning_scheduled = False\<rparr>"]
  by (simp add: brew_def can_brew_def requires_water_def requires_beans_def
      consume_water_cases consume_beans_cases evaluate_def time_rule_applies_def)

text \<open>
  The machine stores and calls whatever brew policy it is given. With a policy that answers
  OK while the bean container holds 5 g and espresso needs 8 g, \<^verbatim>\<open>brew\<close> takes the water,
  then \<^verbatim>\<open>consume_beans\<close> raises: \<^verbatim>\<open>brew\<close> does not return OK, the water is at 120, the beans
  and the dirty count are as before.
\<close>

theorem brew_injected_policy_counterexample:
  "active_recipe
     (select_recipe
        (SimpleCoffeeMachine_init \<lparr>maximum_level = 500, current_level = 150\<rparr>
           \<lparr>maximum_grams = 500, current_grams = 5\<rparr>
           (\<lambda>recipe water beans ms. OK)
           (evaluate \<lparr>schedule_threshold = 80, immediate_threshold = 120,
              max_time_between_cleans = None\<rparr>)
           CapRefillPolicy_on_refill)
        \<lparr>name = ''espresso'', water_ml = 30, beans_g = 8, grind = None\<rparr>)
     = Some \<lparr>name = ''espresso'', water_ml = 30, beans_g = 8, grind = None\<rparr> \<and>
   brew_policy
     (select_recipe
        (SimpleCoffeeMachine_init \<lparr>maximum_level = 500, current_level = 150\<rparr>
           \<lparr>maximum_grams = 500, current_grams = 5\<rparr>
           (\<lambda>recipe water beans ms. OK)
           (evaluate \<lparr>schedule_threshold = 80, immediate_threshold = 120,
              max_time_between_cleans = None\<rparr>)
           CapRefillPolicy_on_refill)
        \<lparr>name = ''espresso'', water_ml = 30, beans_g = 8, grind = None\<rparr>)
     \<lparr>name = ''espresso'', water_ml = 30, beans_g = 8, grind = None\<rparr> 150 5 (Some (Map.empty(''dirty_count'' \<mapsto> 0))) = OK \<and>
   snd (brew 0
     (select_recipe
        (SimpleCoffeeMachine_init \<lparr>maximum_level = 500, current_level = 150\<rparr>
           \<lparr>maximum_grams = 500, current_grams = 5\<rparr>
           (\<lambda>recipe water beans ms. OK)
           (evaluate \<lparr>schedule_threshold = 80, immediate_threshold = 120,
              max_time_between_cleans = None\<rparr>)
           CapRefillPolicy_on_refill)
        \<lparr>name = ''espresso'', water_ml = 30, beans_g = 8, grind = None\<rparr>)) = Inl NotEnoughBeansError \<and>
   snd (brew 0
     (select_recipe
        (SimpleCoffeeMachine_init \<lparr>maximum_level = 500, current_level = 150\<rparr>
           \<lparr>maximum_grams = 500, current_grams = 5\<rparr>
           (\<lambda>recipe water beans ms. OK)
           (evaluate \<lparr>schedule_threshold = 80, immediate_threshold = 120,
              max_time_between_cleans = None\<rparr>)
           CapRefillPolicy_on_refill)
        \<lparr>name = ''espresso'', water_ml = 30, beans_g = 8, grind = None\<rparr>)) \<noteq> Inr OK \<and>
   current_level (water_tank (fst (brew 0
     (select_recipe
        (SimpleCoffeeMachine_init \<lparr>maximum_level = 500, current_level = 150\<rparr>
           \<lparr>maximum_grams = 500, current_grams = 5\<rparr>
           (\<lambda>recipe water beans ms. OK)
           (evaluate \<lparr>schedule_threshold = 80, immediate_threshold = 120,
              max_time_between_cleans = None\<rparr>)
           CapRefillPolicy_on_refill)
        \<lparr>name = ''espresso'', water_ml = 30, beans_g = 8, grind = None\<rparr>)))) = 120 \<and>
   current_grams (bean_container (fst (brew 0
     (select_recipe
        (SimpleCoffeeMachine_init \<lparr>maximum_level = 500, current_level = 150\<rparr>
           \<lparr>maximum_grams = 500, current_grams = 5\<rparr>
           (\<lambda>recipe water beans ms. OK)
           (evaluate \<lparr>schedule_threshold = 80, immediate_threshold = 120,
              max_time_between_cleans = None\<rparr>)
           CapRefillPolicy_on_refill)
        \<lparr>name = ''espresso'', water_ml = 30, beans_g = 8, grind = None\<rparr>)))) = 5 \<and>
   dirty_count (fst (brew 0
     (select_recipe
        (SimpleCoffeeMachine_init \<lparr>maximum_level = 500, current_level = 150\<rparr>
           \<lparr>maximum_grams = 500, current_grams = 5\<rparr>
           (\<lambda>recipe water beans ms. OK)
           (evaluate \<lparr>schedule_threshold = 80, immediate_threshold = 120,
              max_time_between_cleans = None\<rparr>)
           CapRefillPolicy_on_refill)
        \<lparr>name = ''espresso'', water_ml = 30, beans_g = 8, grind = None\<rparr>))) = 0"
  by (simp add: brew_def select_recipe_def SimpleCoffeeMachine_init_def
      requires_water_def requires_beans_def consume_water_cases consume_beans_cases)

end
